theory Spec2Isabelle
  imports Main "HOL-Library.Sublist" "HOL-Library.Word"
begin

section \<open>Python values used by \<open>agent.py\<close>\<close>

text \<open>
  A Python \<open>str\<close> is a sequence of Unicode code points, so it is modelled as a list of
  natural numbers (not as an Isabelle \<open>string\<close>, whose characters are bytes).  A \<open>bytes\<close>
  value is a list of 8-bit words.  \<open>lit\<close> embeds an ASCII literal of the source.
\<close>

type_synonym pystr = "nat list"
type_synonym pybytes = "8 word list"

definition lit :: "string \<Rightarrow> pystr" where
  "lit s = map of_char s"

text \<open>An exception object, reduced to what the source reads from it: \<open>str(e)\<close>.\<close>

datatype exn = Exception pystr

fun str_exn :: "exn \<Rightarrow> pystr" where
  "str_exn (Exception m) = m"

subsection \<open>\<open>str.replace\<close> and \<open>str.strip\<close>\<close>

text \<open>
  \<open>s.replace(old, new)\<close>: one scan from the left, over non-overlapping occurrences of
  \<open>old\<close>.  With an empty \<open>old\<close>, Python inserts \<open>new\<close> before every character and at
  the end.
\<close>

function replace :: "pystr \<Rightarrow> pystr \<Rightarrow> pystr \<Rightarrow> pystr" where
  "replace [] old new = (if old = [] then new else [])"
| "replace (c # cs) old new =
     (if old = [] then new @ c # replace cs old new
      else if prefix old (c # cs) then new @ replace (drop (length old) (c # cs)) old new
      else c # replace cs old new)"
  by pat_completeness auto
termination
  by (relation "measure (\<lambda>(s, old, new). length s)") auto

text \<open>
  The characters for which \<open>str.isspace\<close> holds; \<open>strip()\<close> without argument removes
  them from both ends.
\<close>

definition isspace :: "nat \<Rightarrow> bool" where
  "isspace c \<longleftrightarrow>
     (0x09 \<le> c \<and> c \<le> 0x0D) \<or> (0x1C \<le> c \<and> c \<le> 0x20) \<or> c = 0x85 \<or> c = 0xA0 \<or>
     c = 0x1680 \<or> (0x2000 \<le> c \<and> c \<le> 0x200A) \<or> c = 0x2028 \<or> c = 0x2029 \<or>
     c = 0x202F \<or> c = 0x205F \<or> c = 0x3000"

definition lstrip :: "pystr \<Rightarrow> pystr" where
  "lstrip s = dropWhile isspace s"

definition rstrip :: "pystr \<Rightarrow> pystr" where
  "rstrip s = rev (dropWhile isspace (rev s))"

definition strip :: "pystr \<Rightarrow> pystr" where
  "strip s = rstrip (lstrip s)"

subsection \<open>Dictionaries\<close>

text \<open>\<open>d.get(k, default)\<close> on a dictionary given as a map.\<close>

definition dict_get :: "('k \<rightharpoonup> 'v) \<Rightarrow> 'k \<Rightarrow> 'v \<Rightarrow> 'v" where
  "dict_get d k dflt = (case d k of None \<Rightarrow> dflt | Some v \<Rightarrow> v)"

section \<open>The prompt templates of \<open>TranscriptionAgent.think_and_process\<close>\<close>

definition indent12 :: pystr where
  "indent12 = replicate 12 32"

definition mind_map_prompt :: "pystr \<Rightarrow> pystr" where
  "mind_map_prompt text =
     [10] @ indent12 @ lit ''Create a Mermaid.js flowchart code to visualize connections.'' @
     [10] @ indent12 @ lit ''- Start with '' @ [39] @ lit ''graph TD'' @ [39] @ lit ''.'' @
     [10] @ indent12 @ lit ''- Use short node labels.'' @
     [10] @ indent12 @ lit ''- Do NOT use markdown code blocks. Return raw code only.'' @
     [10] @ indent12 @ lit ''Text: '' @ text @
     [10] @ indent12"

definition prompts :: "pystr \<Rightarrow> (pystr \<rightharpoonup> pystr)" where
  "prompts text = map_of
     [(lit ''Summarize'', lit ''Create a comprehensive bullet-point summary:'' @ [10, 10] @ text),
      (lit ''Elaborate'', lit ''Explain the concepts simply for a beginner:'' @ [10, 10] @ text),
      (lit ''Action Items'', lit ''Identify tasks and assignments as a checklist:'' @ [10, 10] @ text),
      (lit ''Quiz'', lit ''Generate 3 quiz questions with answers at the bottom:'' @ [10, 10] @ text),
      (lit ''Mind Map'', mind_map_prompt text)]"

definition build_prompt :: "pystr \<Rightarrow> pystr \<Rightarrow> pystr" where
  "build_prompt text task = dict_get (prompts text) task (lit ''Analyze this text.'')"

section \<open>The Model Gateway and the world the script runs in\<close>

text \<open>
  The hosted model is outside the repository: it is a parameter.  A request is either
  \<open>genai.upload_file(path=...)\<close> or \<open>model.generate_content(...)\<close>; the answer is the
  text read from the response (for an upload: the handle of the uploaded file), or the
  exception raised by the call or by reading \<open>response.text\<close>.  The answer may depend on
  the requests made so far.  Gateway failures are subclasses of \<open>Exception\<close>.

  A temporary file is named by the order of its creation and its suffix
  (\<open>tempfile.NamedTemporaryFile\<close> picks an unused name).
\<close>

datatype path = TmpFile nat pystr

datatype part = Text pystr | FileRef pystr

datatype request = UploadFile path | GenerateContent "part list"

type_synonym gateway = "request list \<Rightarrow> request \<Rightarrow> exn + pystr"

datatype ui_event =
    Title pystr
  | Subheader pystr
  | Markdown pystr
  | Warning pystr
  | Info pystr
  | CodeBlock pystr
  | TextInput pystr
  | AudioInput pystr
  | Button pystr
  | Spinner pystr
  | Mermaid pystr
  | DownloadButton pystr pybytes pystr

text \<open>
  \<open>session_state\<close> is \<open>st.session_state\<close> (a dictionary from keys to strings), \<open>fs\<close> the
  files on disk, \<open>calls\<close> the log of gateway requests, \<open>ui\<close> the widgets rendered by the
  current run of the script.
\<close>

record world =
  session_state :: "string \<rightharpoonup> pystr"
  fs :: "path \<rightharpoonup> pybytes"
  next_tmp :: nat
  calls :: "request list"
  ui :: "ui_event list"

definition world0 :: world where
  "world0 = \<lparr>session_state = Map.empty, fs = Map.empty, next_tmp = 0, calls = [], ui = []\<rparr>"

definition call_gateway :: "gateway \<Rightarrow> request \<Rightarrow> world \<Rightarrow> (exn + pystr) \<times> world" where
  "call_gateway gw req w = (gw (calls w) req, w\<lparr>calls := calls w @ [req]\<rparr>)"

definition emit :: "ui_event \<Rightarrow> world \<Rightarrow> world" where
  "emit ev w = w\<lparr>ui := ui w @ [ev]\<rparr>"

text \<open>\<open>tempfile.NamedTemporaryFile(delete=False, suffix=...)\<close> followed by a write.\<close>

definition named_temporary_file :: "pystr \<Rightarrow> pybytes \<Rightarrow> world \<Rightarrow> path \<times> world" where
  "named_temporary_file sfx content w =
     (let p = TmpFile (next_tmp w) sfx
      in (p, w\<lparr>fs := (fs w)(p \<mapsto> content), next_tmp := Suc (next_tmp w)\<rparr>))"

definition read_file :: "path \<Rightarrow> world \<Rightarrow> exn + pybytes" where
  "read_file p w =
     (case fs w p of None \<Rightarrow> Inl (Exception (lit ''FileNotFoundError'')) | Some b \<Rightarrow> Inr b)"

section \<open>\<open>TranscriptionAgent\<close>\<close>

definition transcribe_prompt :: pystr where
  "transcribe_prompt =
     [10] @ indent12 @
       lit ''Listen to this audio carefully. It may contain English, Hindi, or Hinglish.'' @
     [10] @ indent12 @ lit ''1. Transcribe it exactly as spoken.'' @
     [10] @ indent12 @ lit ''2. Distinguish between speakers (e.g., '' @ [39] @ lit ''Speaker 1:'' @
       [39] @ lit '', '' @ [39] @ lit ''Speaker 2:'' @ [39] @ lit '').'' @
     [10] @ indent12 @ lit ''3. If it'' @ [39] @ lit ''s a lecture, label the main speaker as '' @
       [39] @ lit ''Lecturer'' @ [39] @ lit ''.'' @
     [10] @ indent12"

text \<open>
  \<open>listen_and_transcribe\<close>: the whole body is inside \<open>try ... except Exception as e\<close>, so
  a failure of the upload or of the generation is returned as text.
\<close>

definition listen_and_transcribe :: "gateway \<Rightarrow> path \<Rightarrow> world \<Rightarrow> (exn + pystr) \<times> world" where
  "listen_and_transcribe gw audio_file_path w =
     (case call_gateway gw (UploadFile audio_file_path) w of
        (Inl e, w1) \<Rightarrow> (Inr (lit ''Agent Error: '' @ str_exn e), w1)
      | (Inr audio_file, w1) \<Rightarrow>
          (case call_gateway gw (GenerateContent [Text transcribe_prompt, FileRef audio_file]) w1 of
             (Inl e, w2) \<Rightarrow> (Inr (lit ''Agent Error: '' @ str_exn e), w2)
           | (Inr text, w2) \<Rightarrow> (Inr text, w2)))"

text \<open>\<open>think_and_process\<close> and \<open>ask_question\<close> have no \<open>try\<close>: an exception propagates.\<close>

definition think_and_process ::
    "gateway \<Rightarrow> pystr \<Rightarrow> pystr \<Rightarrow> world \<Rightarrow> (exn + pystr) \<times> world" where
  "think_and_process gw text task w =
     (case call_gateway gw (GenerateContent [Text (build_prompt text task)]) w of
        (Inl e, w1) \<Rightarrow> (Inl e, w1)
      | (Inr reply, w1) \<Rightarrow>
          (Inr (strip (replace (replace reply (lit ''```mermaid'') []) (lit ''```'') [])), w1))"

definition question_prompt :: "pystr \<Rightarrow> pystr \<Rightarrow> pystr" where
  "question_prompt transcript question =
     lit ''Context: '' @ transcript @ [10, 10] @ lit ''Question: '' @ question @ [10, 10] @
     lit ''Answer concisely based on context:''"

definition ask_question ::
    "gateway \<Rightarrow> pystr \<Rightarrow> pystr \<Rightarrow> world \<Rightarrow> (exn + pystr) \<times> world" where
  "ask_question gw transcript question w =
     (case call_gateway gw (GenerateContent [Text (question_prompt transcript question)]) w of
        (Inl e, w1) \<Rightarrow> (Inl e, w1)
      | (Inr reply, w1) \<Rightarrow> (Inr reply, w1))"

section \<open>File generators\<close>

subsection \<open>\<open>create_pdf\<close>\<close>

text \<open>
  \<open>t.encode('latin-1', 'replace')\<close> writes \<open>?\<close> for every code point above 255;
  \<open>decode('latin-1')\<close> reads every byte as the code point of the same value; the strict
  \<open>encode('latin-1')\<close> raises \<open>UnicodeEncodeError\<close> on a code point above 255.
\<close>

definition encode_latin1_replace :: "pystr \<Rightarrow> pybytes" where
  "encode_latin1_replace s = map (\<lambda>c. if c < 256 then of_nat c else 63) s"

definition decode_latin1 :: "pybytes \<Rightarrow> pystr" where
  "decode_latin1 b = map unat b"

definition latin1 :: "pystr \<Rightarrow> bool" where
  "latin1 s = list_all (\<lambda>c. c < 256) s"

definition encode_latin1 :: "pystr \<Rightarrow> exn + pybytes" where
  "encode_latin1 s =
     (if latin1 s then Inr (map of_nat s) else Inl (Exception (lit ''UnicodeEncodeError'')))"

definition clean :: "pystr \<Rightarrow> pystr" where
  "clean t = decode_latin1 (encode_latin1_replace t)"

text \<open>
  The calls made on the \<open>FPDF\<close> object, in order.  \<open>Cell w h txt ln align\<close> is
  \<open>pdf.cell(w, h, txt, ln=ln, align=align)\<close>, \<open>SetFont family style size\<close> is
  \<open>pdf.set_font(family, style, size)\<close>.
\<close>

datatype pdf_op =
    AddPage
  | SetFont pystr pystr nat
  | Cell nat nat pystr bool pystr
  | Ln nat
  | MultiCell nat nat pystr

definition pdf_layout :: "pystr \<Rightarrow> pystr \<Rightarrow> pystr \<Rightarrow> pdf_op list" where
  "pdf_layout title_txt notes_txt transcript_txt =
     [AddPage,
      SetFont (lit ''Arial'') [] 12,
      SetFont (lit ''Arial'') (lit ''B'') 16,
      Cell 0 10 title_txt True (lit ''C''),
      Ln 10,
      SetFont (lit ''Arial'') (lit ''B'') 12,
      Cell 0 10 (lit ''AI Notes:'') True [],
      SetFont (lit ''Arial'') [] 11,
      MultiCell 0 10 notes_txt,
      Ln 10,
      SetFont (lit ''Arial'') (lit ''B'') 12,
      Cell 0 10 (lit ''Transcript:'') True [],
      SetFont (lit ''Arial'') [] 10,
      MultiCell 0 10 transcript_txt]"

text \<open>
  FPDF is a third-party library: \<open>fpdf\<close> stands for what the calls above followed by
  \<open>pdf.output(dest='S')\<close> return (a \<open>str\<close>) or raise.
\<close>

type_synonym fpdf = "pdf_op list \<Rightarrow> exn + pystr"

definition create_pdf :: "fpdf \<Rightarrow> pystr \<Rightarrow> pystr \<Rightarrow> pystr \<Rightarrow> exn + pybytes" where
  "create_pdf out title transcript notes =
     (case out (pdf_layout (clean title) (clean notes) (clean transcript)) of
        Inl e \<Rightarrow> Inl e
      | Inr buffer \<Rightarrow> encode_latin1 buffer)"

text \<open>
  What the model assumes of FPDF with its built-in fonts: the fixed layout is rendered
  whenever its three texts are latin-1, and the buffer returned holds latin-1 characters
  only.
\<close>

definition fpdf_renders_latin1 :: "fpdf \<Rightarrow> bool" where
  "fpdf_renders_latin1 out \<longleftrightarrow>
     (\<forall>t n tr. latin1 t \<and> latin1 n \<and> latin1 tr \<longrightarrow>
        (\<exists>buffer. out (pdf_layout t n tr) = Inr buffer \<and> latin1 buffer))"

subsection \<open>\<open>create_docx\<close>\<close>

datatype docx_op = Heading pystr nat | Paragraph pystr

type_synonym docx = "docx_op list \<Rightarrow> exn + pybytes"

text \<open>
  python-docx is a third-party library: \<open>save\<close> stands for the bytes that building the
  document and \<open>doc.save\<close> write, or the exception raised.  The temporary file is
  created with \<open>delete=False\<close>, written, and read back.
\<close>

definition create_docx :: "docx \<Rightarrow> pystr \<Rightarrow> pystr \<Rightarrow> world \<Rightarrow> (exn + pybytes) \<times> world" where
  "create_docx save transcript notes w =
     (case named_temporary_file (lit ''.docx'') [] w of (tmp, w1) \<Rightarrow>
        (case save [Heading (lit ''VerbaFlow Report'') 0,
                    Heading (lit ''AI Notes'') 1,
                    Paragraph notes,
                    Heading (lit ''Transcript'') 1,
                    Paragraph transcript] of
           Inl e \<Rightarrow> (Inl e, w1)
         | Inr bytes \<Rightarrow>
             (let w2 = w1\<lparr>fs := (fs w1)(tmp \<mapsto> bytes)\<rparr>
              in (read_file tmp w2, w2))))"

section \<open>The script: one run of \<open>main\<close>\<close>

text \<open>
  Streamlit runs \<open>main\<close> from the top on every interaction.  The widgets' values of the
  run are its input: a button is \<open>True\<close> only in the run its click started, and the
  audio widget is \<open>None\<close> until something is recorded (the uploaded-file object is
  truthy whatever its content).
\<close>

record ui_input =
  api_key :: pystr
  audio_value :: "pybytes option"
  transcribe_clicked :: bool
  summarize_clicked :: bool
  explain_clicked :: bool
  action_items_clicked :: bool
  mind_map_clicked :: bool
  user_q :: pystr

text \<open>
  The libraries behind the script: the gateway, the \<open>st_mermaid\<close> component (which may
  raise), FPDF and python-docx.
\<close>

record env =
  gateway_of :: gateway
  st_mermaid :: "pystr \<Rightarrow> exn option"
  fpdf_of :: fpdf
  docx_of :: docx

text \<open>
  How a run ends: it reaches the end of \<open>main\<close>, it returns at the credential check,
  \<open>st.rerun()\<close> stops it and starts the next run, or an exception escapes \<open>main\<close>.
\<close>

datatype outcome = Finished | Returned | Rerun | Uncaught exn

definition settings_label :: pystr where
  "settings_label = [0x2699, 0xFE0F] @ lit '' Settings''"

definition team_card_html :: pystr where
  "team_card_html =
     [10] @ replicate 7 32 @
     [10] @ replicate 8 32 @ lit ''<div class='' @ [34] @ lit ''team-card'' @ [34] @ lit ''>'' @
     [10] @ indent12 @ lit ''<b>Arvindsundaram S</b><br>'' @
     [10] @ indent12 @ lit ''<i>AI Logic & Backend</i>'' @
     [10] @ replicate 8 32 @ lit ''</div>'' @
     [10] @ replicate 8 32 @
     [10] @ replicate 8 32"

definition page_title_html :: pystr where
  "page_title_html =
     lit ''<h1 style='' @ [34] @ lit ''text-align: center;'' @ [34] @ lit ''>'' @
     [0x1F399, 0xFE0F] @ lit '' VerbaFlow Pro</h1>''"

definition missing_key_warning :: pystr where
  "missing_key_warning = [0x1F448] @ lit '' Please enter the API Key in the sidebar.''"

definition transcribe_label :: pystr where
  "transcribe_label = [0x1F4DD] @ lit '' Transcribe (Identify Speakers)''"

definition summarize_label :: pystr where
  "summarize_label = [0x1F4DD] @ lit '' Summarize''"

definition explain_label :: pystr where
  "explain_label = [0x1F9E0] @ lit '' Explain''"

definition action_items_label :: pystr where
  "action_items_label = [0x2705] @ lit '' Action Items''"

definition mind_map_label :: pystr where
  "mind_map_label = [0x1F5FA, 0xFE0F] @ lit '' Mind Map''"

definition chat_heading :: pystr where
  "chat_heading = lit ''### '' @ [0x1F4AC] @ lit '' Chat with Audio''"

text \<open>Lines 116 to 133: the sidebar and the page title.\<close>

definition header :: "world \<Rightarrow> world" where
  "header w =
     (emit (Markdown page_title_html) \<circ>
      emit (Markdown team_card_html) \<circ>
      emit (Subheader (lit ''CREATOR'')) \<circ>
      emit (Markdown (lit ''---'')) \<circ>
      emit (TextInput (lit ''Gemini API Key'')) \<circ>
      emit (Title settings_label)) w"

text \<open>Lines 192 to 199: the chat box.\<close>

definition chat_section :: "env \<Rightarrow> ui_input \<Rightarrow> pystr \<Rightarrow> world \<Rightarrow> outcome \<times> world" where
  "chat_section e inp transcript w =
     (let w1 = (emit (TextInput (lit ''Ask a question about the recording...'')) \<circ>
                emit (Markdown chat_heading) \<circ>
                emit (Markdown (lit ''---''))) w
      in if user_q inp = [] then (Finished, w1)
         else (case ask_question (gateway_of e) transcript (user_q inp)
                      (emit (Spinner (lit ''Thinking...'')) w1) of
                 (Inl ex, w2) \<Rightarrow> (Uncaught ex, w2)
               | (Inr answer, w2) \<Rightarrow>
                   (Finished,
                    emit (Markdown (lit ''<div class='' @ [39] @ lit ''chat-bubble'' @ [39] @
                                    lit ''><b>Agent:</b> '' @ answer @ lit ''</div>'')) w2)))"

text \<open>
  Lines 175 to 190: the result panel and the two download buttons.  Reading
  \<open>st.session_state['task']\<close> raises \<open>KeyError\<close> when the key is absent; the bare
  \<open>except\<close> around \<open>st_mermaid\<close> falls back to \<open>st.code\<close>.
\<close>

definition result_section :: "env \<Rightarrow> ui_input \<Rightarrow> pystr \<Rightarrow> world \<Rightarrow> outcome \<times> world" where
  "result_section e inp transcript w =
     (case session_state w ''result'' of
        None \<Rightarrow> chat_section e inp transcript w
      | Some result \<Rightarrow>
          (case session_state w ''task'' of
             None \<Rightarrow> (Uncaught (Exception (lit ''KeyError'')), w)
           | Some task \<Rightarrow>
               (let w1 = emit (Markdown (lit ''### Result: '' @ task)) w;
                    w2 = (if task = lit ''Mind Map''
                          then (case st_mermaid e result of
                                  None \<Rightarrow> emit (Mermaid result) w1
                                | Some ex \<Rightarrow> emit (CodeBlock result) w1)
                          else emit (Info result) w1)
                in case create_docx (docx_of e) transcript result w2 of
                     (Inl ex, w3) \<Rightarrow> (Uncaught ex, w3)
                   | (Inr docx_bytes, w3) \<Rightarrow>
                       (let w4 = emit (DownloadButton (lit ''Download DOCX'') docx_bytes
                                         (lit ''notes.docx'')) w3
                        in case create_pdf (fpdf_of e) (lit ''VerbaFlow'') transcript result of
                             Inl ex \<Rightarrow> (Uncaught ex, w4)
                           | Inr pdf_bytes \<Rightarrow>
                               chat_section e inp transcript
                                 (emit (DownloadButton (lit ''Download PDF'') pdf_bytes
                                          (lit ''notes.pdf'')) w4)))))"

text \<open>Lines 163 to 167: each button that is \<open>True\<close> overwrites \<open>task\<close>.\<close>

definition pick_task :: "ui_input \<Rightarrow> pystr option" where
  "pick_task inp =
     (let task0 = None;
          task1 = (if summarize_clicked inp then Some (lit ''Summarize'') else task0);
          task2 = (if explain_clicked inp then Some (lit ''Elaborate'') else task1);
          task3 = (if action_items_clicked inp then Some (lit ''Action Items'') else task2);
          task4 = (if mind_map_clicked inp then Some (lit ''Mind Map'') else task3)
      in task4)"

text \<open>Lines 157 to 173: the transcript box, the four task buttons and the analysis.\<close>

definition transcript_section :: "env \<Rightarrow> ui_input \<Rightarrow> world \<Rightarrow> outcome \<times> world" where
  "transcript_section e inp w =
     (case session_state w ''transcript'' of
        None \<Rightarrow> (Finished, w)
      | Some transcript \<Rightarrow>
          (let w1 = (emit (Button mind_map_label) \<circ>
                     emit (Button action_items_label) \<circ>
                     emit (Button explain_label) \<circ>
                     emit (Button summarize_label) \<circ>
                     emit (Markdown (lit ''### 3. Knowledge Engine'')) \<circ>
                     emit (Markdown (lit ''<div class='' @ [39] @ lit ''agent-box'' @ [39] @
                                     lit ''>'' @ transcript @ lit ''</div>'')) \<circ>
                     emit (Markdown (lit ''### 2. Transcript''))) w
           in case pick_task inp of
                None \<Rightarrow> result_section e inp transcript w1
              | Some task \<Rightarrow>
                  (case think_and_process (gateway_of e) transcript task
                          (emit (Spinner (lit ''Agent is generating '' @ task @ lit ''...'')) w1) of
                     (Inl ex, w2) \<Rightarrow> (Uncaught ex, w2)
                   | (Inr result, w2) \<Rightarrow>
                       result_section e inp transcript
                         (w2\<lparr>session_state :=
                               (session_state w2)(''result'' \<mapsto> result, ''task'' \<mapsto> task)\<rparr>))))"

text \<open>
  \<open>main\<close>, lines 114 to 199.  An empty credential returns after the warning, before the
  agent exists.  Building the agent (\<open>genai.configure\<close>, \<open>GenerativeModel\<close>) sends no
  request.  With a recording, every run writes it to a new temporary file
  (\<open>delete=False\<close>); the Transcribe button stores the transcript and reruns.
\<close>

definition main :: "env \<Rightarrow> ui_input \<Rightarrow> world \<Rightarrow> outcome \<times> world" where
  "main e inp w0 =
     (let w1 = header (w0\<lparr>ui := []\<rparr>)
      in if api_key inp = [] then (Returned, emit (Warning missing_key_warning) w1)
         else
           (let w2 = (emit (AudioInput (lit ''Record Lecture'')) \<circ>
                      emit (Markdown (lit ''### 1. Audio Source''))) w1
            in case audio_value inp of
                 None \<Rightarrow> transcript_section e inp w2
               | Some audio \<Rightarrow>
                   (case named_temporary_file (lit ''.wav'') audio w2 of (tmp_path, w3) \<Rightarrow>
                      (let w4 = emit (Button transcribe_label) w3
                       in if transcribe_clicked inp
                          then (case listen_and_transcribe (gateway_of e) tmp_path
                                       (emit (Spinner (lit ''Agent is listening...'')) w4) of
                                  (Inl ex, w5) \<Rightarrow> (Uncaught ex, w5)
                                | (Inr transcript, w5) \<Rightarrow>
                                    (Rerun,
                                     w5\<lparr>session_state :=
                                          (session_state w5)(''transcript'' \<mapsto> transcript)\<rparr>))
                          else transcript_section e inp w4))))"

section \<open>Auxiliary functions for the proofs\<close>

text \<open>The number of backticks (code point 96) a string starts with.\<close>

fun lead :: "pystr \<Rightarrow> nat" where
  "lead [] = 0"
| "lead (c # cs) = (if c = 96 then Suc (lead cs) else 0)"

text \<open>The text an FPDF call draws.\<close>

fun op_text :: "pdf_op \<Rightarrow> pystr" where
  "op_text (Cell w h txt ln align) = txt"
| "op_text (MultiCell w h txt) = txt"
| "op_text AddPage = []"
| "op_text (SetFont family style pt) = []"
| "op_text (Ln h) = []"

text \<open>
  The widgets that start an analysis or an export: the four task buttons, the spinner
  shown while an analysis runs, and the two download buttons.
\<close>

fun analysis_or_export :: "ui_event \<Rightarrow> bool" where
  "analysis_or_export (Button label) =
     (label = summarize_label \<or> label = explain_label \<or> label = action_items_label \<or>
      label = mind_map_label)"
| "analysis_or_export (Spinner label) = prefix (lit ''Agent is generating '') label"
| "analysis_or_export (DownloadButton label content file_name) = True"
| "analysis_or_export ev = False"

section \<open>Concrete environments and inputs\<close>

text \<open>A gateway that answers every request with the same text.\<close>

definition gateway_echo :: gateway where
  "gateway_echo history req = Inr (lit ''ok'')"

text \<open>A gateway whose reply is a diagram wrapped in a \<open>mermaid\<close> code fence.\<close>

definition gateway_mermaid :: gateway where
  "gateway_mermaid history req =
     Inr (lit ''```mermaid'' @ [10] @ lit ''graph TD'' @ [10] @ lit ''A-->B'' @ [10] @ lit ''```'')"

text \<open>A gateway whose reply quotes a command between triple backticks.\<close>

definition gateway_fenced :: gateway where
  "gateway_fenced history req = Inr (lit ''Run ```pip install x``` first. '')"

text \<open>A gateway that is down: every request raises.\<close>

definition gateway_down :: gateway where
  "gateway_down history req = Inl (Exception (lit ''503 Service Unavailable''))"

text \<open>A gateway that accepts the upload and generates the empty text.\<close>

definition gateway_silent :: gateway where
  "gateway_silent history req =
     (case req of UploadFile p \<Rightarrow> Inr (lit ''files/1'') | GenerateContent parts \<Rightarrow> Inr [])"

text \<open>
  Stand-ins for FPDF and python-docx: the first fails on a text outside latin-1 and
  otherwise returns a header followed by the texts drawn.
\<close>

definition fpdf_stub :: fpdf where
  "fpdf_stub ops =
     (if list_all (\<lambda>op. latin1 (op_text op)) ops
      then Inr (lit ''%PDF-1.3 '' @ concat (map op_text ops))
      else Inl (Exception (lit ''UnicodeEncodeError'')))"

definition docx_stub :: docx where
  "docx_stub ops = Inr [80, 75, 3, 4]"

definition env_down :: env where
  "env_down = \<lparr>gateway_of = gateway_down, st_mermaid = (\<lambda>code. None),
                fpdf_of = fpdf_stub, docx_of = docx_stub\<rparr>"

definition env_silent :: env where
  "env_silent = \<lparr>gateway_of = gateway_silent, st_mermaid = (\<lambda>code. None),
                  fpdf_of = fpdf_stub, docx_of = docx_stub\<rparr>"

definition input_idle :: ui_input where
  "input_idle = \<lparr>api_key = lit ''key'', audio_value = None, transcribe_clicked = False,
                  summarize_clicked = False, explain_clicked = False,
                  action_items_clicked = False, mind_map_clicked = False, user_q = []\<rparr>"

definition input_transcribe :: ui_input where
  "input_transcribe =
     input_idle\<lparr>audio_value := Some [82, 73, 70, 70], transcribe_clicked := True\<rparr>"

definition input_summarize :: ui_input where
  "input_summarize = input_idle\<lparr>summarize_clicked := True\<rparr>"

definition input_no_key :: ui_input where
  "input_no_key = \<lparr>api_key = [], audio_value = Some [82, 73, 70, 70], transcribe_clicked = True,
                    summarize_clicked = True, explain_clicked = True,
                    action_items_clicked = True, mind_map_clicked = True,
                    user_q = lit ''Who spoke?''\<rparr>"

definition world_with_transcript :: world where
  "world_with_transcript =
     world0\<lparr>session_state := [''transcript'' \<mapsto> lit ''Speaker 1: Hello.'']\<rparr>"

text \<open>The session after a transcription that yielded the empty text.\<close>

definition world_empty_transcript :: world where
  "world_empty_transcript = snd (main env_silent input_transcribe world0)"

section \<open>Properties of the prompt templates\<close>

lemma build_prompt_Summarize:
  "build_prompt text (lit ''Summarize'') =
     lit ''Create a comprehensive bullet-point summary:'' @ [10, 10] @ text"
  by (simp add: build_prompt_def prompts_def dict_get_def lit_def)

lemma build_prompt_Elaborate:
  "build_prompt text (lit ''Elaborate'') =
     lit ''Explain the concepts simply for a beginner:'' @ [10, 10] @ text"
  by (simp add: build_prompt_def prompts_def dict_get_def lit_def)

lemma build_prompt_Action_Items:
  "build_prompt text (lit ''Action Items'') =
     lit ''Identify tasks and assignments as a checklist:'' @ [10, 10] @ text"
  by (simp add: build_prompt_def prompts_def dict_get_def lit_def)

lemma build_prompt_Quiz:
  "build_prompt text (lit ''Quiz'') =
     lit ''Generate 3 quiz questions with answers at the bottom:'' @ [10, 10] @ text"
  by (simp add: build_prompt_def prompts_def dict_get_def lit_def)

lemma build_prompt_Mind_Map:
  "build_prompt text (lit ''Mind Map'') = mind_map_prompt text"
  by (simp add: build_prompt_def prompts_def dict_get_def lit_def)

lemma sublist_mind_map_prompt: "sublist text (mind_map_prompt text)"
proof -
  obtain ps ss where "mind_map_prompt text = ps @ text @ ss"
    unfolding mind_map_prompt_def by (metis append.assoc)
  then show ?thesis by (auto simp: sublist_def)
qed

lemma sublist_build_prompt:
  assumes "task \<in> {lit ''Summarize'', lit ''Elaborate'', lit ''Action Items'', lit ''Quiz'',
                    lit ''Mind Map''}"
  shows "sublist text (build_prompt text task)"
proof -
  have tail: "sublist text (h @ [10, 10] @ text)" for h
    using sublist_append_leftI [of "text" "h @ [10, 10]"] by simp
  from assms consider "task = lit ''Summarize''" | "task = lit ''Elaborate''"
    | "task = lit ''Action Items''" | "task = lit ''Quiz''" | "task = lit ''Mind Map''"
    by blast
  then show ?thesis
  proof cases
    case 1 then show ?thesis by (simp only: build_prompt_Summarize tail)
  next
    case 2 then show ?thesis by (simp only: build_prompt_Elaborate tail)
  next
    case 3 then show ?thesis by (simp only: build_prompt_Action_Items tail)
  next
    case 4 then show ?thesis by (simp only: build_prompt_Quiz tail)
  next
    case 5 then show ?thesis by (simp only: build_prompt_Mind_Map sublist_mind_map_prompt)
  qed
qed

lemma calls_think_and_process:
  "calls (snd (think_and_process gw text task w)) =
     calls w @ [GenerateContent [Text (build_prompt text task)]]"
  by (simp add: think_and_process_def call_gateway_def split: sum.splits)

text \<open>
  C1.  For a non-empty transcript and each of the five supported tasks, the prompt that
  \<open>think_and_process\<close> sends to the gateway contains the whole transcript as a
  contiguous substring.  (The proof does not use that the transcript is non-empty.)
\<close>

theorem prompt_contains_transcript:
  assumes "text \<noteq> []"
    and "task \<in> {lit ''Summarize'', lit ''Elaborate'', lit ''Action Items'', lit ''Quiz'',
                  lit ''Mind Map''}"
  shows "\<exists>prompt. calls (snd (think_and_process gw text task w)) =
                    calls w @ [GenerateContent [Text prompt]] \<and>
                  prompt = build_prompt text task \<and> sublist text prompt"
  using assms(2) by (simp add: calls_think_and_process sublist_build_prompt)

theorem prompt_contains_transcript_witness:
  "lit ''Hi'' \<noteq> [] \<and>
   lit ''Quiz'' \<in> {lit ''Summarize'', lit ''Elaborate'', lit ''Action Items'', lit ''Quiz'',
                   lit ''Mind Map''} \<and>
   (\<exists>prompt. calls (snd (think_and_process gateway_echo (lit ''Hi'') (lit ''Quiz'') world0)) =
                calls world0 @ [GenerateContent [Text prompt]] \<and>
              prompt = build_prompt (lit ''Hi'') (lit ''Quiz'') \<and> sublist (lit ''Hi'') prompt)"
proof -
  have h1: "lit ''Hi'' \<noteq> []" by (simp add: lit_def)
  have h2: "lit ''Quiz'' \<in> {lit ''Summarize'', lit ''Elaborate'', lit ''Action Items'',
                             lit ''Quiz'', lit ''Mind Map''}" by simp
  show ?thesis
    using h1 h2 prompt_contains_transcript [OF h1 h2, of gateway_echo world0] by blast
qed

text \<open>
  C9.  For the transcript \<open>Speaker 1: Hello. Speaker 2: Hi.\<close> and the task
  \<open>Action Items\<close>, the prompt contains the instruction
  \<open>Identify tasks and assignments as a checklist\<close> and, later in the string, the
  transcript.
\<close>

theorem action_items_prompt_scenario:
  "\<exists>before between after.
     build_prompt (lit ''Speaker 1: Hello. Speaker 2: Hi.'') (lit ''Action Items'') =
       before @ lit ''Identify tasks and assignments as a checklist'' @ between @
       lit ''Speaker 1: Hello. Speaker 2: Hi.'' @ after"
proof -
  have "build_prompt (lit ''Speaker 1: Hello. Speaker 2: Hi.'') (lit ''Action Items'') =
      [] @ lit ''Identify tasks and assignments as a checklist'' @ [58, 10, 10] @
      lit ''Speaker 1: Hello. Speaker 2: Hi.'' @ []"
    unfolding build_prompt_Action_Items by (simp add: lit_def)
  then show ?thesis by blast
qed

section \<open>Properties of the post-processing of replies\<close>

lemma fence_eq: "lit ''```'' = [96, 96, 96]"
  by (simp add: lit_def)

lemma prefix_fence_iff: "prefix [96, 96, 96] s \<longleftrightarrow> 3 \<le> lead s"
proof (cases s)
  case Nil
  then show ?thesis by simp
next
  case s1: (Cons a t)
  show ?thesis
  proof (cases t)
    case Nil
    with s1 show ?thesis by simp
  next
    case s2: (Cons b u)
    show ?thesis
    proof (cases u)
      case Nil
      with s1 s2 show ?thesis by simp
    next
      case (Cons d v)
      with s1 s2 show ?thesis by simp
    qed
  qed
qed

lemma lead_drop_fence: "prefix [96, 96, 96] s \<Longrightarrow> lead (drop 3 s) \<le> lead s"
  by (auto simp: prefix_def)

lemma replace_fence_invariant:
  "\<not> sublist [96, 96, 96] (replace s [96, 96, 96] []) \<and>
   lead (replace s [96, 96, 96] []) \<le> lead s"
proof (induction s rule: length_induct)
  case (1 s)
  note IH = this
  let ?f = "[96, 96, 96] :: pystr"
  show ?case
  proof (cases s)
    case Nil
    then show ?thesis by simp
  next
    case (Cons c cs)
    show ?thesis
    proof (cases "prefix ?f (c # cs)")
      case True
      have r: "replace s ?f [] = replace (drop 3 s) ?f []"
        using True Cons by (simp add: numeral_3_eq_3)
      have "length (drop 3 s) < length s" using Cons by simp
      with IH have "\<not> sublist ?f (replace (drop 3 s) ?f []) \<and>
          lead (replace (drop 3 s) ?f []) \<le> lead (drop 3 s)" by blast
      moreover have "lead (drop 3 s) \<le> lead s"
        using True Cons lead_drop_fence by blast
      ultimately show ?thesis using r by simp
    next
      case False
      have r: "replace s ?f [] = c # replace cs ?f []"
        using False Cons by auto
      have "length cs < length s" using Cons by simp
      with IH have ih: "\<not> sublist ?f (replace cs ?f [])"
          "lead (replace cs ?f []) \<le> lead cs" by blast+
      have small: "\<not> 3 \<le> lead (c # cs)" 
        using False prefix_fence_iff [of "c # cs"] by blast
      have le: "lead (c # replace cs ?f []) \<le> lead (c # cs)" using ih(2) by simp
      then have "\<not> prefix ?f (c # replace cs ?f [])"
        using small unfolding prefix_fence_iff by linarith
      then show ?thesis using ih(1) le r Cons by (simp add: sublist_Cons_right)
    qed
  qed
qed

lemma sublist_strip: "sublist (strip s) s"
proof -
  have "suffix (lstrip s) s" unfolding lstrip_def by (rule suffix_dropWhile)
  moreover have "prefix (rstrip t) t" for t
  proof -
    have "suffix (dropWhile isspace (rev t)) (rev t)" by (rule suffix_dropWhile)
    then show ?thesis unfolding rstrip_def by (simp add: suffix_to_prefix)
  qed
  ultimately show ?thesis unfolding strip_def
    by (meson prefix_imp_sublist suffix_imp_sublist sublist_order.order_trans)
qed

lemma no_fence_after_postprocessing:
  "\<not> sublist (lit ''```'') (strip (replace (replace reply (lit ''```mermaid'') []) (lit ''```'') []))"
proof
  let ?r = "replace (replace reply (lit ''```mermaid'') []) (lit ''```'') []"
  assume "sublist (lit ''```'') (strip ?r)"
  then have "sublist (lit ''```'') ?r"
    using sublist_strip sublist_order.order_trans by blast
  then show False
    using replace_fence_invariant [of "replace reply (lit ''```mermaid'') []"]
    by (simp add: fence_eq)
qed

lemma think_and_process_reply:
  assumes "gw (calls w) (GenerateContent [Text (build_prompt transcript task)]) = Inr reply"
  shows "fst (think_and_process gw transcript task w) =
           Inr (strip (replace (replace reply (lit ''```mermaid'') []) (lit ''```'') []))"
  using assms by (simp add: think_and_process_def call_gateway_def)

text \<open>
  C5.  Whatever the model replies to the Mind Map prompt, with or without code fences,
  the result returned by \<open>think_and_process\<close> contains no triple backtick.
\<close>

theorem mind_map_result_has_no_fence:
  assumes "gw (calls w) (GenerateContent [Text (build_prompt transcript (lit ''Mind Map''))]) =
             Inr reply"
  shows "\<exists>result. fst (think_and_process gw transcript (lit ''Mind Map'') w) = Inr result \<and>
                  \<not> sublist (lit ''```'') result"
proof -
  have "fst (think_and_process gw transcript (lit ''Mind Map'') w) =
          Inr (strip (replace (replace reply (lit ''```mermaid'') []) (lit ''```'') []))"
    using assms by (rule think_and_process_reply)
  then show ?thesis using no_fence_after_postprocessing by simp
qed

theorem mind_map_result_has_no_fence_witness:
  "gateway_mermaid (calls world0)
      (GenerateContent [Text (build_prompt (lit ''a b'') (lit ''Mind Map''))]) =
     Inr (lit ''```mermaid'' @ [10] @ lit ''graph TD'' @ [10] @ lit ''A-->B'' @ [10] @ lit ''```'') \<and>
   (\<exists>result. fst (think_and_process gateway_mermaid (lit ''a b'') (lit ''Mind Map'') world0) =
                Inr result \<and>
              \<not> sublist (lit ''```'') result)"
proof -
  have h: "gateway_mermaid (calls world0)
      (GenerateContent [Text (build_prompt (lit ''a b'') (lit ''Mind Map''))]) =
     Inr (lit ''```mermaid'' @ [10] @ lit ''graph TD'' @ [10] @ lit ''A-->B'' @ [10] @ lit ''```'')"
    by (simp add: gateway_mermaid_def)
  show ?thesis
    using h mind_map_result_has_no_fence
      [where gw = gateway_mermaid and w = world0 and transcript = "lit ''a b''"]
    by blast
qed

lemma mermaid_example:
  "fst (think_and_process gateway_mermaid (lit ''a b'') (lit ''Mind Map'') world0) =
     Inr (lit ''graph TD'' @ [10] @ lit ''A-->B'')"
  by (simp add: think_and_process_def call_gateway_def gateway_mermaid_def lit_def
      strip_def lstrip_def rstrip_def isspace_def)

text \<open>
  C10.  The fence stripping is applied to the reply of every task, not only Mind Map:
  whatever the task, the result is the reply with \<open>```mermaid\<close> and then \<open>```\<close>
  removed and the surrounding whitespace trimmed, and it contains no triple backtick.
  The example that follows is a Summarize reply quoting a command between triple
  backticks.
\<close>

theorem fence_stripping_on_every_task:
  assumes "gw (calls w) (GenerateContent [Text (build_prompt transcript task)]) = Inr reply"
  shows "fst (think_and_process gw transcript task w) =
           Inr (strip (replace (replace reply (lit ''```mermaid'') []) (lit ''```'') [])) \<and>
         \<not> sublist (lit ''```'')
             (strip (replace (replace reply (lit ''```mermaid'') []) (lit ''```'') []))"
proof -
  have "fst (think_and_process gw transcript task w) =
          Inr (strip (replace (replace reply (lit ''```mermaid'') []) (lit ''```'') []))"
    using assms by (rule think_and_process_reply)
  then show ?thesis using no_fence_after_postprocessing by simp
qed

theorem fence_stripping_on_every_task_witness:
  "gateway_fenced (calls world0)
      (GenerateContent [Text (build_prompt (lit ''a b'') (lit ''Summarize''))]) =
     Inr (lit ''Run ```pip install x``` first. '') \<and>
   fst (think_and_process gateway_fenced (lit ''a b'') (lit ''Summarize'') world0) =
     Inr (lit ''Run pip install x first.'')"
proof -
  have h: "gateway_fenced (calls world0)
      (GenerateContent [Text (build_prompt (lit ''a b'') (lit ''Summarize''))]) =
     Inr (lit ''Run ```pip install x``` first. '')"
    by (simp add: gateway_fenced_def)
  have "strip (replace (replace (lit ''Run ```pip install x``` first. '') (lit ''```mermaid'') [])
          (lit ''```'') []) = lit ''Run pip install x first.''"
    by (simp add: lit_def strip_def lstrip_def rstrip_def isspace_def)
  then show ?thesis
    using h fence_stripping_on_every_task
      [where gw = gateway_fenced and w = world0 and transcript = "lit ''a b''"
         and task = "lit ''Summarize''"]
    by simp
qed

section \<open>Properties of the script\<close>

lemma emit_fields [simp]:
  "session_state (emit ev w) = session_state w"
  "fs (emit ev w) = fs w"
  "next_tmp (emit ev w) = next_tmp w"
  "calls (emit ev w) = calls w"
  "ui (emit ev w) = ui w @ [ev]"
  by (simp_all add: emit_def)

lemma header_fields [simp]:
  "session_state (header w) = session_state w"
  "fs (header w) = fs w"
  "next_tmp (header w) = next_tmp w"
  "calls (header w) = calls w"
  by (simp_all add: header_def)

lemma snd_think_and_process:
  "snd (think_and_process gw transcript task w) =
     w\<lparr>calls := calls w @ [GenerateContent [Text (build_prompt transcript task)]]\<rparr>"
  by (simp add: think_and_process_def call_gateway_def split: sum.splits)

lemma snd_ask_question:
  "snd (ask_question gw transcript question w) =
     w\<lparr>calls := calls w @ [GenerateContent [Text (question_prompt transcript question)]]\<rparr>"
  by (simp add: ask_question_def call_gateway_def split: sum.splits)

lemma listen_and_transcribe_fields:
  "session_state (snd (listen_and_transcribe gw p w)) = session_state w"
  "fs (snd (listen_and_transcribe gw p w)) = fs w"
  "next_tmp (snd (listen_and_transcribe gw p w)) = next_tmp w"
  "ui (snd (listen_and_transcribe gw p w)) = ui w"
  by (simp_all add: listen_and_transcribe_def call_gateway_def split: sum.splits)

lemma listen_and_transcribe_returns:
  "\<exists>transcript. fst (listen_and_transcribe gw p w) = Inr transcript"
  by (simp add: listen_and_transcribe_def call_gateway_def split: sum.splits)

text \<open>
  C2.  When the gateway is down, \<open>listen_and_transcribe\<close> returns the failure as the
  text \<open>Agent Error: ...\<close>, but \<open>think_and_process\<close> and \<open>ask_question\<close> raise, and
  the exception escapes \<open>main\<close>: the claim fails for the two completion operations.
\<close>

theorem gateway_failure_escapes_analysis_and_chat:
  "fst (think_and_process gateway_down transcript task w) =
     Inl (Exception (lit ''503 Service Unavailable'')) \<and>
   fst (ask_question gateway_down transcript question w) =
     Inl (Exception (lit ''503 Service Unavailable'')) \<and>
   fst (listen_and_transcribe gateway_down audio_file_path w) =
     Inr (lit ''Agent Error: 503 Service Unavailable'') \<and>
   fst (main env_down input_summarize world_with_transcript) =
     Uncaught (Exception (lit ''503 Service Unavailable''))"
proof -
  have a: "fst (think_and_process gateway_down transcript task w) =
      Inl (Exception (lit ''503 Service Unavailable''))" for transcript task w
    by (simp add: think_and_process_def call_gateway_def gateway_down_def)
  have b: "fst (ask_question gateway_down transcript question w) =
      Inl (Exception (lit ''503 Service Unavailable''))"
    by (simp add: ask_question_def call_gateway_def gateway_down_def)
  have c: "fst (listen_and_transcribe gateway_down audio_file_path w) =
      Inr (lit ''Agent Error: 503 Service Unavailable'')"
    by (simp add: listen_and_transcribe_def call_gateway_def gateway_down_def lit_def)
  have d: "fst (main env_down input_summarize world_with_transcript) =
      Uncaught (Exception (lit ''503 Service Unavailable''))"
    by (simp add: main_def input_summarize_def input_idle_def world_with_transcript_def
        world0_def header_def transcript_section_def pick_task_def env_down_def
        think_and_process_def call_gateway_def gateway_down_def lit_def)
  from a b c d show ?thesis by blast
qed

text \<open>
  C7.  With an empty API key, whatever is clicked or typed, the run renders the sidebar,
  the title and the warning and returns: no button is rendered, nothing else of the world
  changes, and no request reaches the gateway.
\<close>

theorem empty_api_key_blocks_every_action:
  assumes "api_key inp = []"
  shows "main e inp w =
           (Returned,
            w\<lparr>ui := [Title settings_label, TextInput (lit ''Gemini API Key''),
                      Markdown (lit ''---''), Subheader (lit ''CREATOR''),
                      Markdown team_card_html, Markdown page_title_html,
                      Warning missing_key_warning]\<rparr>) \<and>
         calls (snd (main e inp w)) = calls w"
  using assms by (simp add: main_def header_def emit_def)

theorem empty_api_key_blocks_every_action_witness:
  "api_key input_no_key = [] \<and>
   main env_silent input_no_key world_with_transcript =
     (Returned,
      world_with_transcript
        \<lparr>ui := [Title settings_label, TextInput (lit ''Gemini API Key''),
                Markdown (lit ''---''), Subheader (lit ''CREATOR''),
                Markdown team_card_html, Markdown page_title_html,
                Warning missing_key_warning]\<rparr>) \<and>
   calls (snd (main env_silent input_no_key world_with_transcript)) = []"
proof -
  have h: "api_key input_no_key = []" by (simp add: input_no_key_def)
  have "calls world_with_transcript = []" by (simp add: world_with_transcript_def world0_def)
  then show ?thesis
    using h empty_api_key_blocks_every_action [OF h, of env_silent world_with_transcript]
    by simp
qed

lemma chat_section_fields:
  "fs (snd (chat_section e inp transcript w)) = fs w"
  "session_state (snd (chat_section e inp transcript w)) = session_state w"
proof -
  obtain r w' where aq: "ask_question (gateway_of e) transcript (user_q inp)
       (emit (Spinner (lit ''Thinking...''))
         (emit (TextInput (lit ''Ask a question about the recording...''))
           (emit (Markdown chat_heading) (emit (Markdown (lit ''---'')) w)))) = (r, w')"
    by (cases "ask_question (gateway_of e) transcript (user_q inp)
       (emit (Spinner (lit ''Thinking...''))
         (emit (TextInput (lit ''Ask a question about the recording...''))
           (emit (Markdown chat_heading) (emit (Markdown (lit ''---'')) w))))") simp
  have "fs w' = fs w \<and> session_state w' = session_state w"
    using snd_ask_question [of "gateway_of e" transcript "user_q inp"
        "emit (Spinner (lit ''Thinking...''))
         (emit (TextInput (lit ''Ask a question about the recording...''))
           (emit (Markdown chat_heading) (emit (Markdown (lit ''---'')) w)))"] aq
    by simp
  then show "fs (snd (chat_section e inp transcript w)) = fs w"
    "session_state (snd (chat_section e inp transcript w)) = session_state w"
    using aq by (auto simp: chat_section_def Let_def split: sum.splits)
qed

lemma create_docx_fs:
  assumes "p \<noteq> TmpFile (next_tmp w) (lit ''.docx'')"
  shows "fs (snd (create_docx save transcript notes w)) p = fs w p"
  using assms
  by (simp add: create_docx_def named_temporary_file_def Let_def split: sum.splits)

lemma result_section_fs:
  assumes "p \<noteq> TmpFile (next_tmp w) (lit ''.docx'')"
  shows "fs (snd (result_section e inp transcript w)) p = fs w p"
proof (cases "session_state w ''result''")
  case None
  then show ?thesis by (simp add: result_section_def chat_section_fields)
next
  case (Some result)
  show ?thesis
  proof (cases "session_state w ''task''")
    case None
    with Some show ?thesis by (simp add: result_section_def)
  next
    case task: (Some task)
    define w2 where "w2 =
      (if task = lit ''Mind Map''
       then (case st_mermaid e result of
               None \<Rightarrow> emit (Mermaid result) (emit (Markdown (lit ''### Result: '' @ task)) w)
             | Some ex \<Rightarrow> emit (CodeBlock result) (emit (Markdown (lit ''### Result: '' @ task)) w))
       else emit (Info result) (emit (Markdown (lit ''### Result: '' @ task)) w))"
    have w2: "fs w2 = fs w" "next_tmp w2 = next_tmp w"
      by (simp_all add: w2_def split: option.splits)
    obtain r w3 where cd: "create_docx (docx_of e) transcript result w2 = (r, w3)"
      by (cases "create_docx (docx_of e) transcript result w2") simp
    have w3: "fs w3 p = fs w p"
      using create_docx_fs [of p w2 "docx_of e" transcript result] assms w2 cd by simp
    have unfold: "result_section e inp transcript w =
      (case create_docx (docx_of e) transcript result w2 of
         (Inl ex, w3) \<Rightarrow> (Uncaught ex, w3)
       | (Inr docx_bytes, w3) \<Rightarrow>
           (let w4 = emit (DownloadButton (lit ''Download DOCX'') docx_bytes
                             (lit ''notes.docx'')) w3
            in case create_pdf (fpdf_of e) (lit ''VerbaFlow'') transcript result of
                 Inl ex \<Rightarrow> (Uncaught ex, w4)
               | Inr pdf_bytes \<Rightarrow>
                   chat_section e inp transcript
                     (emit (DownloadButton (lit ''Download PDF'') pdf_bytes
                              (lit ''notes.pdf'')) w4)))"
      using Some task by (simp add: result_section_def w2_def Let_def)
    show ?thesis
      unfolding unfold cd using w3
      by (simp add: Let_def chat_section_fields split: sum.splits)
  qed
qed

lemma transcript_section_fs:
  assumes "p \<noteq> TmpFile (next_tmp w) (lit ''.docx'')"
  shows "fs (snd (transcript_section e inp w)) p = fs w p"
proof (cases "session_state w ''transcript''")
  case None
  then show ?thesis by (simp add: transcript_section_def)
next
  case (Some transcript)
  define w1 where "w1 =
    emit (Button mind_map_label) (emit (Button action_items_label)
      (emit (Button explain_label) (emit (Button summarize_label)
        (emit (Markdown (lit ''### 3. Knowledge Engine''))
          (emit (Markdown (lit ''<div class='' @ [39] @ lit ''agent-box'' @ [39] @
                           lit ''>'' @ transcript @ lit ''</div>''))
            (emit (Markdown (lit ''### 2. Transcript'')) w))))))"
  have w1: "fs w1 = fs w" "next_tmp w1 = next_tmp w" by (simp_all add: w1_def)
  show ?thesis
  proof (cases "pick_task inp")
    case None
    then have "transcript_section e inp w = result_section e inp transcript w1"
      using Some by (simp add: transcript_section_def w1_def)
    then show ?thesis using result_section_fs [of p w1 e inp transcript] assms w1 by simp
  next
    case task: (Some task)
    define ws where "ws = emit (Spinner (lit ''Agent is generating '' @ task @ lit ''...'')) w1"
    obtain r w2 where tp: "think_and_process (gateway_of e) transcript task ws = (r, w2)"
      by (cases "think_and_process (gateway_of e) transcript task ws") simp
    have w2: "fs w2 = fs w" "next_tmp w2 = next_tmp w"
      using snd_think_and_process [of "gateway_of e" transcript task ws] tp w1
      by (simp_all add: ws_def)
    have unfold: "transcript_section e inp w =
      (case think_and_process (gateway_of e) transcript task ws of
         (Inl ex, w2) \<Rightarrow> (Uncaught ex, w2)
       | (Inr result, w2) \<Rightarrow>
           result_section e inp transcript
             (w2\<lparr>session_state :=
                   (session_state w2)(''result'' \<mapsto> result, ''task'' \<mapsto> task)\<rparr>))"
      using Some task by (simp add: transcript_section_def w1_def ws_def)
    show ?thesis
    proof (cases r)
      case (Inl ex)
      then show ?thesis unfolding unfold tp using w2 by simp
    next
      case (Inr result)
      have "fs (snd (result_section e inp transcript
             (w2\<lparr>session_state :=
                   (session_state w2)(''result'' \<mapsto> result, ''task'' \<mapsto> task)\<rparr>))) p =
            fs (w2\<lparr>session_state :=
                   (session_state w2)(''result'' \<mapsto> result, ''task'' \<mapsto> task)\<rparr>) p"
        by (rule result_section_fs) (simp add: w2 assms)
      then show ?thesis unfolding unfold tp using Inr w2 by simp
    qed
  qed
qed

text \<open>
  C3, as amended.  A run of \<open>main\<close> with a credential and a recording writes the
  recording to a new temporary file and never deletes it: after the run the file still
  holds the recording, on every path (no transcription, transcription succeeded or
  failed, analysis, export, chat, uncaught exception).
\<close>

theorem temporary_audio_file_is_kept:
  assumes "api_key inp \<noteq> []" and "audio_value inp = Some audio"
  shows "fs (snd (main e inp w)) (TmpFile (next_tmp w) (lit ''.wav'')) = Some audio"
proof -
  define w2 where "w2 =
    emit (AudioInput (lit ''Record Lecture''))
      (emit (Markdown (lit ''### 1. Audio Source'')) (header (w\<lparr>ui := []\<rparr>)))"
  define tmp_path where "tmp_path = TmpFile (next_tmp w) (lit ''.wav'')"
  define w4 where "w4 =
    emit (Button transcribe_label)
      (w2\<lparr>fs := (fs w2)(tmp_path \<mapsto> audio), next_tmp := Suc (next_tmp w2)\<rparr>)"
  have n2: "next_tmp w2 = next_tmp w" by (simp add: w2_def)
  have w4: "fs w4 tmp_path = Some audio" "next_tmp w4 = Suc (next_tmp w)"
    by (simp_all add: w4_def n2)
  have unfold: "main e inp w =
    (if transcribe_clicked inp
     then (case listen_and_transcribe (gateway_of e) tmp_path
                  (emit (Spinner (lit ''Agent is listening...'')) w4) of
             (Inl ex, w5) \<Rightarrow> (Uncaught ex, w5)
           | (Inr transcript, w5) \<Rightarrow>
               (Rerun,
                w5\<lparr>session_state := (session_state w5)(''transcript'' \<mapsto> transcript)\<rparr>))
     else transcript_section e inp w4)"
    using assms
    by (simp add: main_def named_temporary_file_def Let_def w2_def w4_def tmp_path_def)
  show ?thesis
  proof (cases "transcribe_clicked inp")
    case True
    obtain r w5 where lt: "listen_and_transcribe (gateway_of e) tmp_path
        (emit (Spinner (lit ''Agent is listening...'')) w4) = (r, w5)"
      by (cases "listen_and_transcribe (gateway_of e) tmp_path
        (emit (Spinner (lit ''Agent is listening...'')) w4)") simp
    have "fs w5 = fs w4"
      using listen_and_transcribe_fields(2) [of "gateway_of e" tmp_path
          "emit (Spinner (lit ''Agent is listening...'')) w4"] lt by simp
    then show ?thesis
      unfolding unfold lt using True w4 by (simp add: tmp_path_def split: sum.splits)
  next
    case False
    have "fs (snd (transcript_section e inp w4)) tmp_path = fs w4 tmp_path"
      by (rule transcript_section_fs) (simp add: tmp_path_def w4)
    then show ?thesis unfolding unfold using False w4 by (simp add: tmp_path_def)
  qed
qed

theorem temporary_audio_file_is_kept_witness:
  "api_key input_transcribe \<noteq> [] \<and> audio_value input_transcribe = Some [82, 73, 70, 70] \<and>
   fs (snd (main env_silent input_transcribe world0)) (TmpFile (next_tmp world0) (lit ''.wav'')) =
     Some [82, 73, 70, 70]"
proof -
  have h1: "api_key input_transcribe \<noteq> []"
    by (simp add: input_transcribe_def input_idle_def lit_def)
  have h2: "audio_value input_transcribe = Some [82, 73, 70, 70]"
    by (simp add: input_transcribe_def input_idle_def)
  show ?thesis
    using h1 h2 temporary_audio_file_is_kept [OF h1 h2, of env_silent world0] by simp
qed

text \<open>
  C3, as stated, fails: the gateway is down, the transcription completes with the error
  text as transcript, and the temporary audio file is still on disk.
\<close>

theorem temporary_audio_file_survives_failed_transcription:
  "fst (main env_down input_transcribe world0) = Rerun \<and>
   session_state (snd (main env_down input_transcribe world0)) ''transcript'' =
     Some (lit ''Agent Error: 503 Service Unavailable'') \<and>
   fs (snd (main env_down input_transcribe world0)) (TmpFile 0 (lit ''.wav'')) =
     Some [82, 73, 70, 70]"
  by (simp add: main_def input_transcribe_def input_idle_def world0_def header_def
      named_temporary_file_def env_down_def listen_and_transcribe_def call_gateway_def
      gateway_down_def emit_def lit_def Let_def)

lemma transcribe_button_is_no_analysis: "\<not> analysis_or_export (Button transcribe_label)"
  by (simp add: transcribe_label_def summarize_label_def explain_label_def
      action_items_label_def mind_map_label_def lit_def)

lemma listening_spinner_is_no_analysis:
  "\<not> analysis_or_export (Spinner (lit ''Agent is listening...''))"
  by (simp add: lit_def)

lemma transcript_section_without_transcript:
  "session_state w ''transcript'' = None \<Longrightarrow> transcript_section e inp w = (Finished, w)"
  by (simp add: transcript_section_def)

lemma no_action_without_transcript:
  assumes "session_state w ''transcript'' = None"
  shows "\<forall>ev \<in> set (ui (snd (main e inp w))). \<not> analysis_or_export ev"
proof (cases "api_key inp = []")
  case True
  then show ?thesis by (simp add: main_def header_def)
next
  case key: False
  show ?thesis
  proof (cases "audio_value inp")
    case None
    then show ?thesis
      using key assms
      by (simp add: main_def Let_def transcript_section_without_transcript header_def)
  next
    case (Some audio)
    show ?thesis
    proof (cases "transcribe_clicked inp")
      case False
      then show ?thesis
        using key assms Some transcribe_button_is_no_analysis
        by (simp add: main_def Let_def named_temporary_file_def
            transcript_section_without_transcript header_def)
    next
      case True
      define w4 where "w4 =
        emit (Spinner (lit ''Agent is listening...''))
          (emit (Button transcribe_label)
            (emit (AudioInput (lit ''Record Lecture''))
               (emit (Markdown (lit ''### 1. Audio Source'')) (header (w\<lparr>ui := []\<rparr>)))
             \<lparr>fs := (fs w)(TmpFile (next_tmp w) (lit ''.wav'') \<mapsto> audio),
               next_tmp := Suc (next_tmp w)\<rparr>))"
      obtain r w5 where lt:
        "listen_and_transcribe (gateway_of e) (TmpFile (next_tmp w) (lit ''.wav'')) w4 = (r, w5)"
        by (cases "listen_and_transcribe (gateway_of e) (TmpFile (next_tmp w) (lit ''.wav'')) w4")
          simp
      have ui5: "ui w5 = ui w4"
        using listen_and_transcribe_fields(4)
          [of "gateway_of e" "TmpFile (next_tmp w) (lit ''.wav'')" w4] lt by simp
      have "main e inp w =
        (case listen_and_transcribe (gateway_of e) (TmpFile (next_tmp w) (lit ''.wav'')) w4 of
           (Inl ex, w5) \<Rightarrow> (Uncaught ex, w5)
         | (Inr transcript, w5) \<Rightarrow>
             (Rerun, w5\<lparr>session_state := (session_state w5)(''transcript'' \<mapsto> transcript)\<rparr>))"
        using key Some True by (simp add: main_def Let_def named_temporary_file_def w4_def)
      then have "ui (snd (main e inp w)) = ui w4"
        using lt ui5 by (simp split: sum.splits)
      then show ?thesis
        using transcribe_button_is_no_analysis listening_spinner_is_no_analysis
        by (simp add: w4_def header_def)
    qed
  qed
qed

text \<open>
  C4, as amended.  Whenever a run renders a task button, runs an analysis or renders a
  download button, the session holds a transcript at the start of the run: the script
  checks that the key \<open>transcript\<close> is present, not that its value is non-empty.
\<close>

theorem actions_need_a_stored_transcript:
  assumes "ev \<in> set (ui (snd (main e inp w)))" and "analysis_or_export ev"
  shows "\<exists>transcript. session_state w ''transcript'' = Some transcript"
proof (rule ccontr)
  assume "\<nexists>transcript. session_state w ''transcript'' = Some transcript"
  then have "session_state w ''transcript'' = None" by simp
  then have "\<not> analysis_or_export ev"
    using no_action_without_transcript assms(1) by blast
  with assms(2) show False by simp
qed

lemma world_empty_transcript_eq:
  "world_empty_transcript =
     \<lparr>session_state = [''transcript'' \<mapsto> []],
      fs = [TmpFile 0 (lit ''.wav'') \<mapsto> [82, 73, 70, 70]],
      next_tmp = 1,
      calls = [UploadFile (TmpFile 0 (lit ''.wav'')),
               GenerateContent [Text transcribe_prompt, FileRef (lit ''files/1'')]],
      ui = [Title settings_label, TextInput (lit ''Gemini API Key''), Markdown (lit ''---''),
            Subheader (lit ''CREATOR''), Markdown team_card_html, Markdown page_title_html,
            Markdown (lit ''### 1. Audio Source''), AudioInput (lit ''Record Lecture''),
            Button transcribe_label, Spinner (lit ''Agent is listening...'')]\<rparr>"
  by (simp add: world_empty_transcript_def main_def input_transcribe_def input_idle_def
      world0_def header_def named_temporary_file_def env_silent_def listen_and_transcribe_def
      call_gateway_def gateway_silent_def emit_def Let_def lit_def)

lemma ui_summarize_on_empty_transcript:
  "ui (snd (main env_silent input_summarize world_empty_transcript)) =
      [Title settings_label, TextInput (lit ''Gemini API Key''), Markdown (lit ''---''),
       Subheader (lit ''CREATOR''), Markdown team_card_html, Markdown page_title_html,
       Markdown (lit ''### 1. Audio Source''), AudioInput (lit ''Record Lecture''),
       Markdown (lit ''### 2. Transcript''),
       Markdown (lit ''<div class='' @ [39] @ lit ''agent-box'' @ [39] @ lit ''></div>''),
       Markdown (lit ''### 3. Knowledge Engine''),
       Button summarize_label, Button explain_label, Button action_items_label,
       Button mind_map_label, Spinner (lit ''Agent is generating Summarize...''),
       Markdown (lit ''### Result: Summarize''), Info [],
       DownloadButton (lit ''Download DOCX'') [80, 75, 3, 4] (lit ''notes.docx''),
       DownloadButton (lit ''Download PDF'')
         (map of_nat (lit ''%PDF-1.3 VerbaFlowAI Notes:Transcript:'')) (lit ''notes.pdf''),
       Markdown (lit ''---''), Markdown chat_heading,
       TextInput (lit ''Ask a question about the recording...'')]"
    unfolding world_empty_transcript_eq
    by (simp add: main_def input_summarize_def input_idle_def header_def env_silent_def
      transcript_section_def pick_task_def think_and_process_def call_gateway_def
      gateway_silent_def result_section_def create_docx_def named_temporary_file_def
      read_file_def docx_stub_def chat_section_def emit_def Let_def
      create_pdf_def fpdf_stub_def pdf_layout_def clean_def encode_latin1_replace_def
      decode_latin1_def latin1_def encode_latin1_def strip_def lstrip_def rstrip_def lit_def)

lemma calls_summarize_on_empty_transcript:
  "calls (snd (main env_silent input_summarize world_empty_transcript)) =
      [UploadFile (TmpFile 0 (lit ''.wav'')),
       GenerateContent [Text transcribe_prompt, FileRef (lit ''files/1'')],
       GenerateContent [Text (build_prompt [] (lit ''Summarize''))]]"
    unfolding world_empty_transcript_eq
    by (simp add: main_def input_summarize_def input_idle_def header_def env_silent_def
      transcript_section_def pick_task_def think_and_process_def call_gateway_def
      gateway_silent_def result_section_def create_docx_def named_temporary_file_def
      read_file_def docx_stub_def chat_section_def emit_def Let_def
      create_pdf_def fpdf_stub_def pdf_layout_def clean_def encode_latin1_replace_def
      decode_latin1_def latin1_def encode_latin1_def strip_def lstrip_def rstrip_def lit_def)

text \<open>
  C4, as stated, fails: after a transcription that yields the empty text, the session
  holds the empty transcript, and the next run offers the task buttons, sends the
  Summarize prompt built from the empty transcript and offers the downloads.
\<close>

theorem actions_offered_on_empty_transcript:
  "session_state world_empty_transcript ''transcript'' = Some [] \<and>
   Button summarize_label \<in>
     set (ui (snd (main env_silent input_summarize world_empty_transcript))) \<and>
   GenerateContent [Text (build_prompt [] (lit ''Summarize''))] \<in>
     set (calls (snd (main env_silent input_summarize world_empty_transcript))) \<and>
   DownloadButton (lit ''Download DOCX'') [80, 75, 3, 4] (lit ''notes.docx'') \<in>
     set (ui (snd (main env_silent input_summarize world_empty_transcript)))"
  unfolding ui_summarize_on_empty_transcript calls_summarize_on_empty_transcript
  by (simp add: world_empty_transcript_eq)

theorem actions_need_a_stored_transcript_witness:
  "Button summarize_label \<in>
     set (ui (snd (main env_silent input_summarize world_empty_transcript))) \<and>
   analysis_or_export (Button summarize_label) \<and>
   (\<exists>transcript. session_state world_empty_transcript ''transcript'' = Some transcript)"
proof -
  have h1: "Button summarize_label \<in>
     set (ui (snd (main env_silent input_summarize world_empty_transcript)))"
    unfolding ui_summarize_on_empty_transcript by simp
  have h2: "analysis_or_export (Button summarize_label)" by simp
  show ?thesis using h1 h2 actions_need_a_stored_transcript [OF h1 h2] by blast
qed


section \<open>Properties of \<open>create_pdf\<close>\<close>

lemma unat_latin1_byte:
  "unat (if c < 256 then of_nat c else (63 :: 8 word)) = (if c < 256 then c else 63)"
  by (simp add: unat_of_nat)

lemma clean_eq: "clean s = map (\<lambda>c. if c < 256 then c else 63) s"
proof -
  have "clean s = map (\<lambda>c. unat (if c < 256 then of_nat c else (63 :: 8 word))) s"
    by (simp add: clean_def decode_latin1_def encode_latin1_replace_def comp_def)
  then show ?thesis by (simp only: unat_latin1_byte)
qed

lemma latin1_clean: "latin1 (clean s)"
  by (auto simp: clean_eq latin1_def list_all_iff)

text \<open>
  C8.  Provided FPDF renders the fixed layout whenever its texts are latin-1,
  \<open>create_pdf\<close> returns a byte buffer for every title, transcript and notes: \<open>clean\<close>
  keeps each code point below 256 and writes \<open>?\<close> (63) for every other one, so the
  texts handed to FPDF are latin-1 and the final strict encoding succeeds.
\<close>

theorem create_pdf_never_fails:
  assumes "fpdf_renders_latin1 out"
  shows "(\<exists>pdf_bytes. create_pdf out title transcript notes = Inr pdf_bytes) \<and>
         (\<forall>s. clean s = map (\<lambda>c. if c < 256 then c else 63) s)"
proof -
  obtain buffer where
    "out (pdf_layout (clean title) (clean notes) (clean transcript)) = Inr buffer"
    and "latin1 buffer"
    using assms latin1_clean unfolding fpdf_renders_latin1_def by blast
  then have "create_pdf out title transcript notes = Inr (map of_nat buffer)"
    by (simp add: create_pdf_def encode_latin1_def)
  then show ?thesis using clean_eq by blast
qed

lemma fpdf_stub_renders_latin1: "fpdf_renders_latin1 fpdf_stub"
proof -
  have "latin1 (lit ''%PDF-1.3 '' @ t @ lit ''AI Notes:'' @ n @ lit ''Transcript:'' @ tr)"
    if "latin1 t" "latin1 n" "latin1 tr" for t n tr
    using that by (simp add: latin1_def lit_def)
  then show ?thesis
    by (simp add: fpdf_renders_latin1_def fpdf_stub_def pdf_layout_def)
      (simp add: latin1_def lit_def)
qed

theorem create_pdf_never_fails_witness:
  "fpdf_renders_latin1 fpdf_stub \<and>
   create_pdf fpdf_stub (lit ''VerbaFlow'') [2344, 2350, 233] (lit ''ok'') =
     Inr (map of_nat (lit ''%PDF-1.3 VerbaFlowAI Notes:okTranscript:??'' @ [233]))"
proof -
  have "create_pdf fpdf_stub (lit ''VerbaFlow'') [2344, 2350, 233] (lit ''ok'') =
     Inr (map of_nat (lit ''%PDF-1.3 VerbaFlowAI Notes:okTranscript:??'' @ [233]))"
    by (simp add: create_pdf_def fpdf_stub_def pdf_layout_def clean_eq latin1_def
        encode_latin1_def lit_def)
  then show ?thesis
    using fpdf_stub_renders_latin1
      create_pdf_never_fails [OF fpdf_stub_renders_latin1, of "lit ''VerbaFlow''"
        "[2344, 2350, 233]" "lit ''ok''"]
    by simp
qed

end
